theory Spec2Isabelle
  imports
    Main
    "HOL-Library.Multiset"
    "HOL-Library.Char_ord"
    "HOL-Library.List_Lexorder"
    "HOL-Library.Product_Lexorder"
begin

section \<open>The fitness tracker: request handlers of app.py over the SQLite store\<close>

text \<open>
  Every handler of \<^verbatim>\<open>app.py\<close> opens a connection, runs one or a few SQL statements and
  answers with a JSON body and a status code. The embedding below passes the database
  explicitly: a handler takes the database (and what it reads from the request) and returns
  its response together with the database it leaves behind.

  What SQLite and Python's \<^verbatim>\<open>sqlite3\<close> module do for these statements is written out:
  parameter binding, column affinity, \<^verbatim>\<open>NOT NULL\<close>, \<^verbatim>\<open>AUTOINCREMENT\<close>,
  \<^verbatim>\<open>INSERT OR REPLACE\<close>, \<^verbatim>\<open>ORDER BY\<close>, \<^verbatim>\<open>LIMIT\<close> and \<^verbatim>\<open>SUM\<close>.
  Two things are left out. Floating-point numbers: a JSON number with a fraction or an
  exponent is not a value of \<open>json\<close> below, and a total that SQLite would compute in floating
  point is the response \<open>NotModelled\<close>. The ceiling of \<open>2^63 - 1\<close> on row ids, which
  no sequence of requests reaches in practice: ids are natural numbers.
\<close>

subsection \<open>Request payloads and Python exceptions\<close>

datatype json =
    JNull
  | JBool bool
  | JInt int
  | JStr string
  | JList "json list"
  | JDict "(string \<times> json) list"

datatype exn =
    KeyError
  | TypeError
  | OverflowError
  | InterfaceError
  | IntegrityError
  | OperationalError

text \<open>
  \<^verbatim>\<open>data[key]\<close>: a dict without the key raises KeyError; subscripting None, a number, a
  string or a list with a string raises TypeError.
\<close>

fun getitem :: "json \<Rightarrow> string \<Rightarrow> exn + json" where
  "getitem (JDict kvs) k = (case map_of kvs k of None \<Rightarrow> Inl KeyError | Some v \<Rightarrow> Inr v)"
| "getitem _ k = Inl TypeError"

text \<open>\<^verbatim>\<open>data.get(key, default)\<close>, reached only once \<^verbatim>\<open>data\<close> is known to be a dict.\<close>

fun get_default :: "json \<Rightarrow> string \<Rightarrow> json \<Rightarrow> json" where
  "get_default (JDict kvs) k dflt = (case map_of kvs k of None \<Rightarrow> dflt | Some v \<Rightarrow> v)"
| "get_default _ k dflt = dflt"

definition bind_exn :: "exn + 'a \<Rightarrow> ('a \<Rightarrow> exn + 'b) \<Rightarrow> exn + 'b" where
  "bind_exn r f = (case r of Inl e \<Rightarrow> Inl e | Inr v \<Rightarrow> f v)"

subsection \<open>SQLite values: binding and column affinity\<close>

datatype sqlval = SNull | SInt int | SText string

definition int64 :: "int \<Rightarrow> bool" where
  "int64 i \<longleftrightarrow> - (2 ^ 63) \<le> i \<and> i \<le> 2 ^ 63 - 1"

text \<open>
  Binding a Python value to a \<^verbatim>\<open>?\<close>: None is NULL, a bool is the integer 0 or 1, an int must
  fit 64 bits (OverflowError: "Python int too large to convert to SQLite INTEGER"), a str is
  TEXT, and a list or dict is refused (sqlite3.InterfaceError; sqlite3.ProgrammingError from
  Python 3.11 on). None of the last two kinds is a KeyError or a TypeError.
\<close>

fun bind_param :: "json \<Rightarrow> exn + sqlval" where
  "bind_param JNull = Inr SNull"
| "bind_param (JBool b) = Inr (SInt (if b then 1 else 0))"
| "bind_param (JInt i) = (if int64 i then Inr (SInt i) else Inl OverflowError)"
| "bind_param (JStr s) = Inr (SText s)"
| "bind_param (JList xs) = Inl InterfaceError"
| "bind_param (JDict kvs) = Inl InterfaceError"

fun bind_params :: "json list \<Rightarrow> exn + sqlval list" where
  "bind_params [] = Inr []"
| "bind_params (j # js) =
     bind_exn (bind_param j) (\<lambda>v. bind_exn (bind_params js) (\<lambda>vs. Inr (v # vs)))"

text \<open>Decimal rendering of an integer stored into a TEXT column.\<close>

fun show_nat :: "nat \<Rightarrow> string" where
  "show_nat n =
     (if n < 10 then [''0123456789'' ! n]
      else show_nat (n div 10) @ [''0123456789'' ! (n mod 10)])"

definition show_int :: "int \<Rightarrow> string" where
  "show_int i = (if i < 0 then CHR ''-'' # show_nat (nat (- i)) else show_nat (nat i))"

text \<open>TEXT affinity: a number becomes its text; None stands for NULL.\<close>

fun text_affinity :: "sqlval \<Rightarrow> string option" where
  "text_affinity SNull = None"
| "text_affinity (SInt i) = Some (show_int i)"
| "text_affinity (SText s) = Some s"

text \<open>
  INTEGER affinity: text that is an integer literal (blanks around it, an optional sign,
  digits) within 64 bits is stored as that integer. Any other text stays \<open>SText\<close> here;
  SQLite keeps it as TEXT unless it spells a number in floating-point notation, which it
  stores as a number. That conversion is floating point and is not followed: a cell
  \<open>SText s\<close> of an INTEGER column stands for whatever SQLite stored for \<open>s\<close>.
\<close>

definition is_space :: "char \<Rightarrow> bool" where
  "is_space c \<longleftrightarrow> c \<in> set [CHR 0x09, CHR 0x0A, CHR 0x0B, CHR 0x0C, CHR 0x0D, CHR 0x20]"

definition is_digit :: "char \<Rightarrow> bool" where
  "is_digit c \<longleftrightarrow> c \<in> set ''0123456789''"

definition digit_val :: "char \<Rightarrow> int" where
  "digit_val c = of_char c - 48"

definition strip_sign :: "string \<Rightarrow> bool \<times> string" where
  "strip_sign t =
     (case t of
        [] \<Rightarrow> (False, [])
      | c # r \<Rightarrow> if c = CHR ''-'' then (True, r) else if c = CHR ''+'' then (False, r) else (False, t))"

definition int_literal :: "string \<Rightarrow> int option" where
  "int_literal s =
     (let t = rev (dropWhile is_space (rev (dropWhile is_space s)));
          neg = fst (strip_sign t);
          ds = snd (strip_sign t);
          n = foldl (\<lambda>a c. 10 * a + digit_val c) 0 ds
      in if ds \<noteq> [] \<and> list_all is_digit ds then Some (if neg then - n else n) else None)"

fun integer_affinity :: "sqlval \<Rightarrow> sqlval" where
  "integer_affinity SNull = SNull"
| "integer_affinity (SInt i) = SInt i"
| "integer_affinity (SText s) =
     (case int_literal s of
        Some i \<Rightarrow> if int64 i then SInt i else SText s
      | None \<Rightarrow> SText s)"

subsection \<open>The schema of init_db\<close>

text \<open>
  One record per table. A TEXT NOT NULL column is a string, a nullable TEXT column a string
  option, an INTEGER column an \<open>sqlval\<close>. \<^verbatim>\<open>created_at\<close> is the text that
  \<^verbatim>\<open>CURRENT_TIMESTAMP\<close> gave at the insert ("YYYY-MM-DD HH:MM:SS"); text is compared
  byte by byte, a prefix first, which is the order of \<open>string\<close>. A table is the list of
  its rows in rowid order, the order in which SQLite scans it; next to it is its entry in
  \<^verbatim>\<open>sqlite_sequence\<close>, the largest id AUTOINCREMENT has handed out.
\<close>

record workout =
  w_id :: nat
  w_date :: string
  w_type :: string
  w_duration :: sqlval
  w_calories :: sqlval
  w_notes :: "string option"
  w_created_at :: string

record goal =
  g_id :: nat
  g_goal_type :: string
  g_target_value :: sqlval
  g_deadline :: "string option"
  g_created_at :: string

record meal =
  m_id :: nat
  m_date :: string
  m_meal_type :: string
  m_food_name :: string
  m_calories :: sqlval
  m_protein :: sqlval
  m_carbs :: sqlval
  m_fats :: sqlval
  m_notes :: "string option"
  m_created_at :: string

record calorie_goal =
  cg_id :: nat
  cg_date :: string
  cg_daily_goal :: sqlval
  cg_created_at :: string

record db =
  workouts :: "workout list"
  workouts_seq :: nat
  goals :: "goal list"
  goals_seq :: nat
  meals :: "meal list"
  meals_seq :: nat
  calorie_goals :: "calorie_goal list"
  calorie_goals_seq :: nat

text \<open>AUTOINCREMENT: one more than the largest id in the table or ever handed out.\<close>

definition next_rowid :: "nat \<Rightarrow> nat list \<Rightarrow> nat" where
  "next_rowid seq ids = Suc (max seq (fold max ids 0))"

text \<open>A NOT NULL column refuses NULL: sqlite3.IntegrityError.\<close>

definition not_null_text :: "string option \<Rightarrow> exn + string" where
  "not_null_text v = (case v of None \<Rightarrow> Inl IntegrityError | Some s \<Rightarrow> Inr s)"

definition not_null :: "sqlval \<Rightarrow> exn + sqlval" where
  "not_null v = (case v of SNull \<Rightarrow> Inl IntegrityError | _ \<Rightarrow> Inr v)"

subsection \<open>ORDER BY and SUM\<close>

text \<open>
  \<^verbatim>\<open>ORDER BY key ASC\<close> and \<^verbatim>\<open>ORDER BY key DESC\<close> as insertion sorts. SQL leaves the
  order of rows with equal keys open; here they stay in scan order, and no theorem below
  says anything about it.
\<close>

fun insert_asc :: "('a \<Rightarrow> 'k::linorder) \<Rightarrow> 'a \<Rightarrow> 'a list \<Rightarrow> 'a list" where
  "insert_asc key x [] = [x]"
| "insert_asc key x (y # ys) =
     (if key x \<le> key y then x # y # ys else y # insert_asc key x ys)"

definition order_by_asc :: "('a \<Rightarrow> 'k::linorder) \<Rightarrow> 'a list \<Rightarrow> 'a list" where
  "order_by_asc key rows = foldr (insert_asc key) rows []"

fun insert_desc :: "('a \<Rightarrow> 'k::linorder) \<Rightarrow> 'a \<Rightarrow> 'a list \<Rightarrow> 'a list" where
  "insert_desc key x [] = [x]"
| "insert_desc key x (y # ys) =
     (if key y \<le> key x then x # y # ys else y # insert_desc key x ys)"

definition order_by_desc :: "('a \<Rightarrow> 'k::linorder) \<Rightarrow> 'a list \<Rightarrow> 'a list" where
  "order_by_desc key rows = foldr (insert_desc key) rows []"

text \<open>
  \<^verbatim>\<open>SUM(column)\<close>, one row at a time in scan order. NULL is skipped; with no other row the
  result is NULL. While every value so far is an integer the total is exact, and a total
  that leaves 64 bits makes the statement fail with "integer overflow"
  (sqlite3.OperationalError) when only integers and NULLs follow. Once a cell is not an
  integer the total is floating point: \<open>SumNotModelled\<close>. That is also the result when
  such a cell follows an overflow: SQLite versions differ there (older ones keep the error,
  newer ones return the floating-point total).
\<close>

datatype sum_result = SumNull | SumInt int | SumOverflow | SumNotModelled

fun sum_step :: "sum_result \<Rightarrow> sqlval \<Rightarrow> sum_result" where
  "sum_step acc SNull = acc"
| "sum_step acc (SText t) = SumNotModelled"
| "sum_step SumNull (SInt i) = (if int64 i then SumInt i else SumOverflow)"
| "sum_step (SumInt s) (SInt i) = (if int64 (s + i) then SumInt (s + i) else SumOverflow)"
| "sum_step SumOverflow (SInt i) = SumOverflow"
| "sum_step SumNotModelled (SInt i) = SumNotModelled"

definition sql_sum :: "sqlval list \<Rightarrow> sum_result" where
  "sql_sum cells = foldl sum_step SumNull cells"

subsection \<open>Responses\<close>

text \<open>
  \<open>Unhandled e\<close> is an exception that leaves the handler (Flask answers 500);
  \<open>BadRequest400\<close> is the answer of the \<^verbatim>\<open>except (KeyError, TypeError)\<close> clause.
\<close>

datatype 'a response =
    Ok200 'a
  | Created201 'a
  | BadRequest400
  | Unhandled exn
  | NotModelled

text \<open>The try/except around every insert: the body's result becomes the response.\<close>

definition handle_create :: "db \<Rightarrow> exn + ('a \<times> db) \<Rightarrow> 'a response \<times> db" where
  "handle_create d r =
     (case r of
        Inr (v, d') \<Rightarrow> (Created201 v, d')
      | Inl KeyError \<Rightarrow> (BadRequest400, d)
      | Inl TypeError \<Rightarrow> (BadRequest400, d)
      | Inl e \<Rightarrow> (Unhandled e, d))"

subsection \<open>Workouts\<close>

definition get_workouts :: "db \<Rightarrow> workout list response \<times> db" where
  "get_workouts d =
     (Ok200 (order_by_desc (\<lambda>w. (w_date w, w_created_at w)) (workouts d)), d)"

text \<open>
  \<^verbatim>\<open>INSERT INTO workouts (date, type, duration, calories, notes) VALUES (?, ?, ?, ?, ?)\<close>
  on the five bound values: each value takes the affinity of its column, a NULL in a
  NOT NULL column fails the statement, and the row gets the next id and the current
  timestamp \<open>now\<close>. The handlers always pass as many values as the statement has
  placeholders; the last case of each insert is never reached.
\<close>

definition insert_workout :: "db \<Rightarrow> string \<Rightarrow> sqlval list \<Rightarrow> exn + (nat \<times> db)" where
  "insert_workout d now vs =
     (case vs of
        [v_date, v_type, v_duration, v_calories, v_notes] \<Rightarrow>
          bind_exn (not_null_text (text_affinity v_date)) (\<lambda>c_date.
          bind_exn (not_null_text (text_affinity v_type)) (\<lambda>c_type.
          bind_exn (not_null (integer_affinity v_duration)) (\<lambda>c_duration.
          bind_exn (not_null (integer_affinity v_calories)) (\<lambda>c_calories.
            let i = next_rowid (workouts_seq d) (map w_id (workouts d));
                row = \<lparr>w_id = i, w_date = c_date, w_type = c_type, w_duration = c_duration,
                       w_calories = c_calories, w_notes = text_affinity v_notes,
                       w_created_at = now\<rparr>
            in Inr (i, d\<lparr>workouts := workouts d @ [row], workouts_seq := i\<rparr>)))))
      | _ \<Rightarrow> Inl InterfaceError)"

definition add_workout :: "db \<Rightarrow> string \<Rightarrow> json \<Rightarrow> nat response \<times> db" where
  "add_workout d now data =
     handle_create d
       (bind_exn (getitem data ''date'') (\<lambda>j_date.
        bind_exn (getitem data ''type'') (\<lambda>j_type.
        bind_exn (getitem data ''duration'') (\<lambda>j_duration.
        bind_exn (getitem data ''calories'') (\<lambda>j_calories.
        bind_exn (bind_params [j_date, j_type, j_duration, j_calories,
                               get_default data ''notes'' (JStr '''')])
          (insert_workout d now))))))"

text \<open>
  \<^verbatim>\<open>DELETE FROM workouts WHERE id = ?\<close>. The route's \<^verbatim>\<open><int:workout_id>\<close> accepts any
  run of digits, so the id is a natural number of any size, and binding it is the only step
  that can fail.
\<close>

definition delete_workout :: "db \<Rightarrow> nat \<Rightarrow> unit response \<times> db" where
  "delete_workout d workout_id =
     (if int64 (int workout_id)
      then (Ok200 (), d\<lparr>workouts := filter (\<lambda>w. w_id w \<noteq> workout_id) (workouts d)\<rparr>)
      else (Unhandled OverflowError, d))"

subsection \<open>Meals\<close>

text \<open>
  \<^verbatim>\<open>request.args.get('date')\<close> is None without the parameter; \<^verbatim>\<open>if date:\<close> is also
  false for the empty string.
\<close>

definition get_meals :: "db \<Rightarrow> string option \<Rightarrow> meal list response \<times> db" where
  "get_meals d date_arg =
     (case date_arg of
        Some date \<Rightarrow>
          if date \<noteq> []
          then (Ok200 (order_by_desc m_created_at (filter (\<lambda>m. m_date m = date) (meals d))), d)
          else (Ok200 (take 50 (order_by_desc (\<lambda>m. (m_date m, m_created_at m)) (meals d))), d)
      | None \<Rightarrow>
          (Ok200 (take 50 (order_by_desc (\<lambda>m. (m_date m, m_created_at m)) (meals d))), d))"

definition insert_meal :: "db \<Rightarrow> string \<Rightarrow> sqlval list \<Rightarrow> exn + (nat \<times> db)" where
  "insert_meal d now vs =
     (case vs of
        [v_date, v_meal_type, v_food_name, v_calories, v_protein, v_carbs, v_fats, v_notes] \<Rightarrow>
          bind_exn (not_null_text (text_affinity v_date)) (\<lambda>c_date.
          bind_exn (not_null_text (text_affinity v_meal_type)) (\<lambda>c_meal_type.
          bind_exn (not_null_text (text_affinity v_food_name)) (\<lambda>c_food_name.
          bind_exn (not_null (integer_affinity v_calories)) (\<lambda>c_calories.
            let i = next_rowid (meals_seq d) (map m_id (meals d));
                row = \<lparr>m_id = i, m_date = c_date, m_meal_type = c_meal_type,
                       m_food_name = c_food_name, m_calories = c_calories,
                       m_protein = integer_affinity v_protein,
                       m_carbs = integer_affinity v_carbs,
                       m_fats = integer_affinity v_fats,
                       m_notes = text_affinity v_notes, m_created_at = now\<rparr>
            in Inr (i, d\<lparr>meals := meals d @ [row], meals_seq := i\<rparr>)))))
      | _ \<Rightarrow> Inl InterfaceError)"

definition add_meal :: "db \<Rightarrow> string \<Rightarrow> json \<Rightarrow> nat response \<times> db" where
  "add_meal d now data =
     handle_create d
       (bind_exn (getitem data ''date'') (\<lambda>j_date.
        bind_exn (getitem data ''meal_type'') (\<lambda>j_meal_type.
        bind_exn (getitem data ''food_name'') (\<lambda>j_food_name.
        bind_exn (getitem data ''calories'') (\<lambda>j_calories.
        bind_exn (bind_params [j_date, j_meal_type, j_food_name, j_calories,
                               get_default data ''protein'' (JInt 0),
                               get_default data ''carbs'' (JInt 0),
                               get_default data ''fats'' (JInt 0),
                               get_default data ''notes'' (JStr '''')])
          (insert_meal d now))))))"

definition delete_meal :: "db \<Rightarrow> nat \<Rightarrow> unit response \<times> db" where
  "delete_meal d meal_id =
     (if int64 (int meal_id)
      then (Ok200 (), d\<lparr>meals := filter (\<lambda>m. m_id m \<noteq> meal_id) (meals d)\<rparr>)
      else (Unhandled OverflowError, d))"

text \<open>
  \<^verbatim>\<open>totals[...] or 0\<close>: NULL (None) and 0 both give 0, any other integer is itself.
\<close>

fun or_zero :: "sum_result \<Rightarrow> int" where
  "or_zero (SumInt i) = i"
| "or_zero r = 0"

record totals =
  t_calories :: int
  t_protein :: int
  t_carbs :: int
  t_fats :: int

definition get_daily_meals :: "db \<Rightarrow> string \<Rightarrow> (meal list \<times> totals) response \<times> db" where
  "get_daily_meals d date =
     (let rows = filter (\<lambda>m. m_date m = date) (meals d);
          ms = order_by_asc m_created_at rows;
          calories = sql_sum (map m_calories rows);
          protein = sql_sum (map m_protein rows);
          carbs = sql_sum (map m_carbs rows);
          fats = sql_sum (map m_fats rows)
      in if SumOverflow \<in> set [calories, protein, carbs, fats]
         then (Unhandled OperationalError, d)
         else if SumNotModelled \<in> set [calories, protein, carbs, fats]
         then (NotModelled, d)
         else (Ok200 (ms, \<lparr>t_calories = or_zero calories, t_protein = or_zero protein,
                            t_carbs = or_zero carbs, t_fats = or_zero fats\<rparr>), d))"

subsection \<open>Calorie goals\<close>

text \<open>\<^verbatim>\<open>fetchone()\<close>: the first matching row, or None.\<close>

definition get_calorie_goal :: "db \<Rightarrow> string \<Rightarrow> calorie_goal option response \<times> db" where
  "get_calorie_goal d date = (Ok200 (find (\<lambda>r. cg_date r = date) (calorie_goals d)), d)"

text \<open>
  \<^verbatim>\<open>INSERT OR REPLACE\<close>: the new row gets its id as any insert does, the rows that clash
  with it on the UNIQUE column \<^verbatim>\<open>date\<close> are deleted, and the new row is stored. A NULL
  for a NOT NULL column without a default still fails.
\<close>

definition replace_calorie_goal :: "db \<Rightarrow> string \<Rightarrow> sqlval list \<Rightarrow> exn + (unit \<times> db)" where
  "replace_calorie_goal d now vs =
     (case vs of
        [v_date, v_daily_goal] \<Rightarrow>
          bind_exn (not_null_text (text_affinity v_date)) (\<lambda>c_date.
          bind_exn (not_null (integer_affinity v_daily_goal)) (\<lambda>c_daily_goal.
            let i = next_rowid (calorie_goals_seq d) (map cg_id (calorie_goals d));
                row = \<lparr>cg_id = i, cg_date = c_date, cg_daily_goal = c_daily_goal,
                       cg_created_at = now\<rparr>
            in Inr ((), d\<lparr>calorie_goals :=
                             filter (\<lambda>r. cg_date r \<noteq> c_date) (calorie_goals d) @ [row],
                           calorie_goals_seq := i\<rparr>)))
      | _ \<Rightarrow> Inl InterfaceError)"

definition set_calorie_goal :: "db \<Rightarrow> string \<Rightarrow> json \<Rightarrow> unit response \<times> db" where
  "set_calorie_goal d now data =
     handle_create d
       (bind_exn (getitem data ''date'') (\<lambda>j_date.
        bind_exn (getitem data ''daily_goal'') (\<lambda>j_daily_goal.
        bind_exn (bind_params [j_date, j_daily_goal])
          (replace_calorie_goal d now))))"

subsection \<open>Statistics\<close>

record stats =
  total_workouts :: nat
  total_calories_burned :: int
  total_duration :: int
  total_calories_consumed :: int
  net_calories :: int

definition get_stats :: "db \<Rightarrow> stats response \<times> db" where
  "get_stats d =
     (let count = length (workouts d);
          burned = sql_sum (map w_calories (workouts d));
          duration = sql_sum (map w_duration (workouts d));
          consumed = sql_sum (map m_calories (meals d))
      in if SumOverflow \<in> set [burned, duration, consumed]
         then (Unhandled OperationalError, d)
         else if SumNotModelled \<in> set [burned, duration, consumed]
         then (NotModelled, d)
         else (Ok200 \<lparr>total_workouts = count,
                      total_calories_burned = or_zero burned,
                      total_duration = or_zero duration,
                      total_calories_consumed = or_zero consumed,
                      net_calories = or_zero consumed - or_zero burned\<rparr>, d))"

subsection \<open>Goals\<close>

definition get_goals :: "db \<Rightarrow> goal list response \<times> db" where
  "get_goals d = (Ok200 (order_by_desc g_created_at (goals d)), d)"

definition insert_goal :: "db \<Rightarrow> string \<Rightarrow> sqlval list \<Rightarrow> exn + (nat \<times> db)" where
  "insert_goal d now vs =
     (case vs of
        [v_goal_type, v_target_value, v_deadline] \<Rightarrow>
          bind_exn (not_null_text (text_affinity v_goal_type)) (\<lambda>c_goal_type.
          bind_exn (not_null (integer_affinity v_target_value)) (\<lambda>c_target_value.
            let i = next_rowid (goals_seq d) (map g_id (goals d));
                row = \<lparr>g_id = i, g_goal_type = c_goal_type, g_target_value = c_target_value,
                       g_deadline = text_affinity v_deadline, g_created_at = now\<rparr>
            in Inr (i, d\<lparr>goals := goals d @ [row], goals_seq := i\<rparr>)))
      | _ \<Rightarrow> Inl InterfaceError)"

definition add_goal :: "db \<Rightarrow> string \<Rightarrow> json \<Rightarrow> nat response \<times> db" where
  "add_goal d now data =
     handle_create d
       (bind_exn (getitem data ''goal_type'') (\<lambda>j_goal_type.
        bind_exn (getitem data ''target_value'') (\<lambda>j_target_value.
        bind_exn (bind_params [j_goal_type, j_target_value,
                               get_default data ''deadline'' JNull])
          (insert_goal d now))))"

definition delete_goal :: "db \<Rightarrow> nat \<Rightarrow> unit response \<times> db" where
  "delete_goal d goal_id =
     (if int64 (int goal_id)
      then (Ok200 (), d\<lparr>goals := filter (\<lambda>g. g_id g \<noteq> goal_id) (goals d)\<rparr>)
      else (Unhandled OverflowError, d))"

subsection \<open>Absent fields\<close>

text \<open>
  A field is absent from a payload when the payload is a dict without that key, or is no
  dict at all.
\<close>

fun lacks :: "json \<Rightarrow> string \<Rightarrow> bool" where
  "lacks (JDict kvs) k = (map_of kvs k = None)"
| "lacks j k = True"

subsection \<open>Integer cells and totals that fit\<close>

text \<open>
  What the theorems about totals ask of the cells of a column: each is an integer or NULL
  (\<open>int_or_null\<close>), NULL counting as 0 (\<open>cell_value\<close>), and the running total, row by row
  in scan order, stays within 64 bits (\<open>running_total_fits\<close>, from the total so far).
\<close>

fun int_or_null :: "sqlval \<Rightarrow> bool" where
  "int_or_null (SText t) = False"
| "int_or_null v = True"

fun cell_value :: "sqlval \<Rightarrow> int" where
  "cell_value (SInt i) = i"
| "cell_value v = 0"

fun running_total_fits :: "int \<Rightarrow> int list \<Rightarrow> bool" where
  "running_total_fits s [] = True"
| "running_total_fits s (x # xs) = (int64 (s + x) \<and> running_total_fits (s + x) xs)"

section \<open>Example databases\<close>

definition empty_db :: db where
  "empty_db = \<lparr>workouts = [], workouts_seq = 0, goals = [], goals_seq = 0,
     meals = [], meals_seq = 0, calorie_goals = [], calorie_goals_seq = 0\<rparr>"

definition breakfast :: meal where
  "breakfast = \<lparr>m_id = 1, m_date = ''2024-01-01'', m_meal_type = ''breakfast'',
     m_food_name = ''oats'', m_calories = SInt 300, m_protein = SInt 10, m_carbs = SInt 50,
     m_fats = SInt 5, m_notes = Some '''', m_created_at = ''2024-01-01 08:00:00''\<rparr>"

definition lunch :: meal where
  "lunch = \<lparr>m_id = 2, m_date = ''2024-01-01'', m_meal_type = ''lunch'',
     m_food_name = ''rice'', m_calories = SInt 600, m_protein = SInt 20, m_carbs = SInt 90,
     m_fats = SInt 10, m_notes = Some '''', m_created_at = ''2024-01-01 12:30:00''\<rparr>"

definition two_meals_db :: db where
  "two_meals_db = empty_db\<lparr>meals := [breakfast, lunch], meals_seq := 2\<rparr>"

definition morning_run :: workout where
  "morning_run = \<lparr>w_id = 1, w_date = ''2024-01-01'', w_type = ''run'',
     w_duration = SInt 30, w_calories = SInt 1000, w_notes = Some '''',
     w_created_at = ''2024-01-01 07:00:00''\<rparr>"

definition active_day_db :: db where
  "active_day_db = empty_db\<lparr>workouts := [morning_run], workouts_seq := 1,
                             meals := [breakfast, lunch], meals_seq := 2\<rparr>"

text \<open>Rows with 2^62 calories: two of them total 2^63, one more than 64 bits hold.\<close>

definition heavy_workout :: "nat \<Rightarrow> workout" where
  "heavy_workout i = \<lparr>w_id = i, w_date = ''2024-01-01'', w_type = ''run'',
     w_duration = SInt 30, w_calories = SInt (2 ^ 62), w_notes = Some '''',
     w_created_at = ''2024-01-01 07:00:00''\<rparr>"

definition heavy_meal :: "nat \<Rightarrow> meal" where
  "heavy_meal i = \<lparr>m_id = i, m_date = ''2024-01-01'', m_meal_type = ''dinner'',
     m_food_name = ''feast'', m_calories = SInt (2 ^ 62), m_protein = SInt 0, m_carbs = SInt 0,
     m_fats = SInt 0, m_notes = Some '''', m_created_at = ''2024-01-01 19:00:00''\<rparr>"

section \<open>Properties\<close>

subsection \<open>ORDER BY returns the same rows, in key order\<close>

lemma mset_insert_desc: "mset (insert_desc key x xs) = add_mset x (mset xs)"
  by (induction xs) auto

lemma mset_order_by_desc: "mset (order_by_desc key xs) = mset xs"
  by (induction xs) (auto simp: order_by_desc_def mset_insert_desc)

lemma set_insert_desc: "set (insert_desc key x xs) = insert x (set xs)"
  by (induction xs) auto

lemma sorted_insert_desc:
  "sorted_wrt (\<lambda>a b. key b \<le> key a) xs \<Longrightarrow>
   sorted_wrt (\<lambda>a b. key b \<le> key a) (insert_desc key x xs)"
  by (induction xs) (auto simp: set_insert_desc)

lemma sorted_order_by_desc: "sorted_wrt (\<lambda>a b. key b \<le> key a) (order_by_desc key xs)"
  by (induction xs) (auto simp: order_by_desc_def sorted_insert_desc)

lemma mset_insert_asc: "mset (insert_asc key x xs) = add_mset x (mset xs)"
  by (induction xs) auto

lemma mset_order_by_asc: "mset (order_by_asc key xs) = mset xs"
  by (induction xs) (auto simp: order_by_asc_def mset_insert_asc)

lemma set_insert_asc: "set (insert_asc key x xs) = insert x (set xs)"
  by (induction xs) auto

lemma sorted_insert_asc:
  "sorted_wrt (\<lambda>a b. key a \<le> key b) xs \<Longrightarrow>
   sorted_wrt (\<lambda>a b. key a \<le> key b) (insert_asc key x xs)"
  by (induction xs) (auto simp: set_insert_asc)

lemma sorted_order_by_asc: "sorted_wrt (\<lambda>a b. key a \<le> key b) (order_by_asc key xs)"
  by (induction xs) (auto simp: order_by_asc_def sorted_insert_asc)

lemma pair_desc_iff:
  "((a::string, b::string) \<le> (c, e)) = (a < c \<or> (a = c \<and> b \<le> e))"
  by auto

subsection \<open>Listing workouts\<close>

text \<open>
  C8. For every database, \<open>get_workouts\<close> answers 200 with all workout rows (the same rows,
  each as often as the table holds it), a later date before an earlier one and, on the same
  date, a later creation time before an earlier one; the database is returned as it was.
\<close>

theorem get_workouts_newest_first:
  "\<exists>ws. get_workouts d = (Ok200 ws, d)
        \<and> mset ws = mset (workouts d)
        \<and> sorted_wrt (\<lambda>a b. w_date b < w_date a
                            \<or> (w_date b = w_date a \<and> w_created_at b \<le> w_created_at a)) ws"
proof -
  let ?ws = "order_by_desc (\<lambda>w. (w_date w, w_created_at w)) (workouts d)"
  have "sorted_wrt (\<lambda>a b. (w_date b, w_created_at b) \<le> (w_date a, w_created_at a)) ?ws"
    by (rule sorted_order_by_desc)
  then have "sorted_wrt (\<lambda>a b. w_date b < w_date a
                            \<or> (w_date b = w_date a \<and> w_created_at b \<le> w_created_at a)) ?ws"
    by (rule sorted_wrt_mono_rel[rotated]) (auto simp: pair_desc_iff)
  then show ?thesis
    by (simp add: get_workouts_def mset_order_by_desc)
qed

subsection \<open>Listing meals\<close>

lemma length_order_by_desc: "length (order_by_desc key xs) = length xs"
  by (metis mset_order_by_desc size_mset)

text \<open>
  C7. Without a date filter (no \<^verbatim>\<open>date\<close> parameter, or an empty one) \<open>get_meals\<close> answers
  with the first 50 rows of the meals table sorted by date descending and, on the same
  date, by creation time descending: the answer \<open>ms\<close> has \<open>min 50 n\<close> rows for a table of
  \<open>n\<close>, and with the rows \<open>rest\<close> it leaves out it makes up the whole table in that order.
\<close>

theorem get_meals_recent:
  "\<exists>ms rest. get_meals d None = (Ok200 ms, d)
        \<and> get_meals d (Some '''') = (Ok200 ms, d)
        \<and> length ms = min 50 (length (meals d))
        \<and> mset (ms @ rest) = mset (meals d)
        \<and> sorted_wrt (\<lambda>a b. m_date b < m_date a
                            \<or> (m_date b = m_date a \<and> m_created_at b \<le> m_created_at a))
             (ms @ rest)"
proof -
  let ?xs = "order_by_desc (\<lambda>m. (m_date m, m_created_at m)) (meals d)"
  have "sorted_wrt (\<lambda>a b. (m_date b, m_created_at b) \<le> (m_date a, m_created_at a)) ?xs"
    by (rule sorted_order_by_desc)
  then have sorted: "sorted_wrt (\<lambda>a b. m_date b < m_date a
                            \<or> (m_date b = m_date a \<and> m_created_at b \<le> m_created_at a)) ?xs"
    by (rule sorted_wrt_mono_rel[rotated]) (auto simp: pair_desc_iff)
  have "get_meals d None = (Ok200 (take 50 ?xs), d)"
    and "get_meals d (Some '''') = (Ok200 (take 50 ?xs), d)"
    by (simp_all add: get_meals_def)
  moreover have "length (take 50 ?xs) = min 50 (length (meals d))"
    by (simp add: length_order_by_desc)
  moreover have "mset (take 50 ?xs @ drop 50 ?xs) = mset (meals d)"
    by (simp add: mset_order_by_desc)
  moreover have "sorted_wrt (\<lambda>a b. m_date b < m_date a
                            \<or> (m_date b = m_date a \<and> m_created_at b \<le> m_created_at a))
             (take 50 ?xs @ drop 50 ?xs)"
    using sorted by simp
  ultimately show ?thesis by blast
qed

text \<open>
  C4, as the code has it. With a non-empty \<^verbatim>\<open>date\<close> parameter \<open>get_meals\<close> answers with
  exactly the meals of that date, ordered by creation time descending: the statement is
  \<^verbatim>\<open>ORDER BY created_at DESC\<close>. The ascending order belongs to \<open>get_daily_meals\<close>.
\<close>

theorem get_meals_by_date_newest_first:
  "date \<noteq> [] \<Longrightarrow>
   \<exists>ms. get_meals d (Some date) = (Ok200 ms, d)
        \<and> mset ms = mset (filter (\<lambda>m. m_date m = date) (meals d))
        \<and> sorted_wrt (\<lambda>a b. m_created_at b \<le> m_created_at a) ms"
  by (simp add: get_meals_def mset_order_by_desc sorted_order_by_desc)

theorem get_meals_by_date_newest_first_witness:
  "''2024-01-01'' \<noteq> [] \<and>
   (\<exists>ms. get_meals two_meals_db (Some ''2024-01-01'') = (Ok200 ms, two_meals_db)
        \<and> mset ms = mset (filter (\<lambda>m. m_date m = ''2024-01-01'') (meals two_meals_db))
        \<and> sorted_wrt (\<lambda>a b. m_created_at b \<le> m_created_at a) ms)"
  using get_meals_by_date_newest_first [of "''2024-01-01''" two_meals_db] by simp

text \<open>
  C4 as stated fails: breakfast was created before lunch on the same date, and the
  date-scoped listing returns lunch first.
\<close>

theorem get_meals_by_date_ascending_counterexample:
  "get_meals two_meals_db (Some ''2024-01-01'') = (Ok200 [lunch, breakfast], two_meals_db)
   \<and> m_created_at breakfast < m_created_at lunch
   \<and> m_date breakfast = ''2024-01-01'' \<and> m_date lunch = ''2024-01-01''"
  by (simp add: get_meals_def two_meals_db_def empty_db_def breakfast_def lunch_def
      order_by_desc_def)

subsection \<open>SUM over integer cells\<close>

lemma foldl_sum_step_exact:
  "list_all int_or_null cs \<Longrightarrow> running_total_fits (or_zero acc) (map cell_value cs) \<Longrightarrow>
   acc \<noteq> SumOverflow \<Longrightarrow> acc \<noteq> SumNotModelled \<Longrightarrow>
   foldl sum_step acc cs \<noteq> SumOverflow \<and> foldl sum_step acc cs \<noteq> SumNotModelled
   \<and> or_zero (foldl sum_step acc cs) = or_zero acc + sum_list (map cell_value cs)"
proof (induction cs arbitrary: acc)
  case Nil
  then show ?case by simp
next
  case (Cons c cs)
  show ?case
  proof (cases c)
    case SNull
    with Cons.prems Cons.IH [of acc] show ?thesis by simp
  next
    case (SInt i)
    from Cons.prems SInt have fits: "int64 (or_zero acc + i)"
      and rest: "running_total_fits (or_zero acc + i) (map cell_value cs)"
      and ints: "list_all int_or_null cs" by simp_all
    from Cons.prems(3,4) fits have step: "sum_step acc c = SumInt (or_zero acc + i)"
      using SInt by (cases acc) auto
    from Cons.IH [of "SumInt (or_zero acc + i)"] ints rest step
    show ?thesis by (simp add: SInt)
  next
    case (SText t)
    with Cons.prems show ?thesis by simp
  qed
qed

lemma sql_sum_exact:
  assumes "list_all int_or_null cs" and "running_total_fits 0 (map cell_value cs)"
  shows "sql_sum cs \<noteq> SumOverflow" and "sql_sum cs \<noteq> SumNotModelled"
    and "or_zero (sql_sum cs) = sum_list (map cell_value cs)"
  using foldl_sum_step_exact [of cs SumNull] assms unfolding sql_sum_def by auto

subsection \<open>Statistics\<close>

text \<open>
  C5, as the code has it. When the calories and duration cells of the workouts and the
  calories cells of the meals are integers (or NULL) and no running total of these three
  columns, taken in table order, leaves the signed 64-bit range, \<open>get_stats\<close> answers 200
  with the number of workout rows, the sum of the workout calories, the sum of the workout
  durations, the sum of the meal calories over all dates, and consumed minus burned, which
  may be negative; a sum over no rows is 0, so every field is 0 on an empty database.
\<close>

theorem get_stats_totals:
  assumes "list_all (\<lambda>w. int_or_null (w_calories w) \<and> int_or_null (w_duration w)) (workouts d)"
    and "list_all (\<lambda>m. int_or_null (m_calories m)) (meals d)"
    and "running_total_fits 0 (map (\<lambda>w. cell_value (w_calories w)) (workouts d))"
    and "running_total_fits 0 (map (\<lambda>w. cell_value (w_duration w)) (workouts d))"
    and "running_total_fits 0 (map (\<lambda>m. cell_value (m_calories m)) (meals d))"
  shows "get_stats d =
           (Ok200 \<lparr>total_workouts = length (workouts d),
                   total_calories_burned = (\<Sum>w\<leftarrow>workouts d. cell_value (w_calories w)),
                   total_duration = (\<Sum>w\<leftarrow>workouts d. cell_value (w_duration w)),
                   total_calories_consumed = (\<Sum>m\<leftarrow>meals d. cell_value (m_calories m)),
                   net_calories = (\<Sum>m\<leftarrow>meals d. cell_value (m_calories m))
                                  - (\<Sum>w\<leftarrow>workouts d. cell_value (w_calories w))\<rparr>, d)"
proof -
  have b: "list_all int_or_null (map w_calories (workouts d))"
    and du: "list_all int_or_null (map w_duration (workouts d))"
    and c: "list_all int_or_null (map m_calories (meals d))"
    using assms(1,2) by (simp_all add: list_all_iff)
  note burned = sql_sum_exact [OF b] and duration = sql_sum_exact [OF du]
    and consumed = sql_sum_exact [OF c]
  show ?thesis
    using burned duration consumed assms(3-5)
    by (simp add: get_stats_def Let_def comp_def)
qed

theorem get_stats_totals_witness:
  "get_stats active_day_db =
     (Ok200 \<lparr>total_workouts = 1, total_calories_burned = 1000, total_duration = 30,
             total_calories_consumed = 900, net_calories = - 100\<rparr>, active_day_db)
   \<and> get_stats empty_db =
     (Ok200 \<lparr>total_workouts = 0, total_calories_burned = 0, total_duration = 0,
             total_calories_consumed = 0, net_calories = 0\<rparr>, empty_db)"
  using get_stats_totals [of active_day_db] get_stats_totals [of empty_db]
  by (simp add: active_day_db_def empty_db_def morning_run_def breakfast_def lunch_def int64_def)

text \<open>
  C5 as stated fails: with two workouts of 2^62 calories each, \<^verbatim>\<open>SUM(calories)\<close> leaves
  64 bits, SQLite fails the statement with "integer overflow", and \<open>get_stats\<close> raises
  instead of answering.
\<close>

theorem get_stats_overflow_counterexample:
  "get_stats (empty_db\<lparr>workouts := [heavy_workout 1, heavy_workout 2], workouts_seq := 2\<rparr>)
     = (Unhandled OperationalError,
        empty_db\<lparr>workouts := [heavy_workout 1, heavy_workout 2], workouts_seq := 2\<rparr>)
   \<and> w_calories (heavy_workout 1) = SInt 4611686018427387904
   \<and> w_calories (heavy_workout 2) = SInt 4611686018427387904"
  by (simp add: get_stats_def Let_def sql_sum_def heavy_workout_def empty_db_def int64_def)

subsection \<open>The daily view of meals\<close>

text \<open>
  C6, as the code has it. When the calories, protein, carbs and fats cells of the meals of a
  date are integers (or NULL) and no running total of these four columns over those meals
  leaves the signed 64-bit range, \<open>get_daily_meals\<close> answers 200 with exactly the meals of
  that date, ordered by creation time ascending, and with the four sums over exactly those
  meals (a NULL cell counting as 0); when the date has no meal the list is empty and every
  total is the integer 0.
\<close>

theorem get_daily_meals_totals:
  assumes "rows = filter (\<lambda>m. m_date m = date) (meals d)"
    and "list_all (\<lambda>m. int_or_null (m_calories m) \<and> int_or_null (m_protein m)
                       \<and> int_or_null (m_carbs m) \<and> int_or_null (m_fats m)) rows"
    and "running_total_fits 0 (map (\<lambda>m. cell_value (m_calories m)) rows)"
    and "running_total_fits 0 (map (\<lambda>m. cell_value (m_protein m)) rows)"
    and "running_total_fits 0 (map (\<lambda>m. cell_value (m_carbs m)) rows)"
    and "running_total_fits 0 (map (\<lambda>m. cell_value (m_fats m)) rows)"
  shows "(\<exists>ms. get_daily_meals d date =
             (Ok200 (ms, \<lparr>t_calories = (\<Sum>m\<leftarrow>rows. cell_value (m_calories m)),
                          t_protein = (\<Sum>m\<leftarrow>rows. cell_value (m_protein m)),
                          t_carbs = (\<Sum>m\<leftarrow>rows. cell_value (m_carbs m)),
                          t_fats = (\<Sum>m\<leftarrow>rows. cell_value (m_fats m))\<rparr>), d)
            \<and> mset ms = mset rows
            \<and> sorted_wrt (\<lambda>a b. m_created_at a \<le> m_created_at b) ms)
         \<and> (rows = [] \<longrightarrow>
              get_daily_meals d date =
                (Ok200 ([], \<lparr>t_calories = 0, t_protein = 0, t_carbs = 0, t_fats = 0\<rparr>), d))"
proof -
  have c: "list_all int_or_null (map m_calories rows)"
    and p: "list_all int_or_null (map m_protein rows)"
    and cb: "list_all int_or_null (map m_carbs rows)"
    and f: "list_all int_or_null (map m_fats rows)"
    using assms(2) by (simp_all add: list_all_iff)
  note calories = sql_sum_exact [OF c] and protein = sql_sum_exact [OF p]
    and carbs = sql_sum_exact [OF cb] and fats = sql_sum_exact [OF f]
  have answer: "get_daily_meals d date =
             (Ok200 (order_by_asc m_created_at rows,
                     \<lparr>t_calories = (\<Sum>m\<leftarrow>rows. cell_value (m_calories m)),
                      t_protein = (\<Sum>m\<leftarrow>rows. cell_value (m_protein m)),
                      t_carbs = (\<Sum>m\<leftarrow>rows. cell_value (m_carbs m)),
                      t_fats = (\<Sum>m\<leftarrow>rows. cell_value (m_fats m))\<rparr>), d)"
    using calories protein carbs fats assms(3-6)
    by (simp add: get_daily_meals_def Let_def comp_def assms(1) [symmetric])
  have "mset (order_by_asc m_created_at rows) = mset rows"
    by (rule mset_order_by_asc)
  moreover have "sorted_wrt (\<lambda>a b. m_created_at a \<le> m_created_at b)
                   (order_by_asc m_created_at rows)"
    by (rule sorted_order_by_asc)
  moreover have "rows = [] \<longrightarrow>
              get_daily_meals d date =
                (Ok200 ([], \<lparr>t_calories = 0, t_protein = 0, t_carbs = 0, t_fats = 0\<rparr>), d)"
    using answer by (simp add: order_by_asc_def)
  ultimately show ?thesis using answer by blast
qed

theorem get_daily_meals_totals_witness:
  "get_daily_meals two_meals_db ''2024-01-01'' =
     (Ok200 ([breakfast, lunch],
             \<lparr>t_calories = 900, t_protein = 30, t_carbs = 140, t_fats = 15\<rparr>), two_meals_db)
   \<and> get_daily_meals two_meals_db ''2024-01-02'' =
     (Ok200 ([], \<lparr>t_calories = 0, t_protein = 0, t_carbs = 0, t_fats = 0\<rparr>), two_meals_db)"
proof -
  let ?rows = "filter (\<lambda>m. m_date m = ''2024-01-01'') (meals two_meals_db)"
  have rows: "?rows = [breakfast, lunch]"
    by (simp add: two_meals_db_def empty_db_def breakfast_def lunch_def)
  have none: "filter (\<lambda>m. m_date m = ''2024-01-02'') (meals two_meals_db) = []"
    by (simp add: two_meals_db_def empty_db_def breakfast_def lunch_def)
  from get_daily_meals_totals [of "[breakfast, lunch]" "''2024-01-01''" two_meals_db] rows
  obtain ms where ms: "get_daily_meals two_meals_db ''2024-01-01'' =
             (Ok200 (ms, \<lparr>t_calories = 900, t_protein = 30, t_carbs = 140, t_fats = 15\<rparr>),
              two_meals_db)"
    by (auto simp: breakfast_def lunch_def int64_def)
  have "fst (get_daily_meals two_meals_db ''2024-01-01'') = Ok200 ([breakfast, lunch],
             \<lparr>t_calories = 900, t_protein = 30, t_carbs = 140, t_fats = 15\<rparr>)"
    using ms by (simp add: get_daily_meals_def Let_def rows order_by_asc_def breakfast_def lunch_def split: if_splits)
  with ms have first: "get_daily_meals two_meals_db ''2024-01-01'' =
     (Ok200 ([breakfast, lunch],
             \<lparr>t_calories = 900, t_protein = 30, t_carbs = 140, t_fats = 15\<rparr>), two_meals_db)"
    by simp
  from get_daily_meals_totals [of "[]" "''2024-01-02''" two_meals_db] none
  have "get_daily_meals two_meals_db ''2024-01-02'' =
     (Ok200 ([], \<lparr>t_calories = 0, t_protein = 0, t_carbs = 0, t_fats = 0\<rparr>), two_meals_db)"
    by simp
  with first show ?thesis by simp
qed

text \<open>
  C6 as stated fails: with two meals of 2^62 calories each on one date,
  \<^verbatim>\<open>SUM(calories)\<close> leaves 64 bits and \<open>get_daily_meals\<close> raises instead of answering.
\<close>

theorem get_daily_meals_overflow_counterexample:
  "get_daily_meals (empty_db\<lparr>meals := [heavy_meal 1, heavy_meal 2], meals_seq := 2\<rparr>)
       ''2024-01-01''
     = (Unhandled OperationalError,
        empty_db\<lparr>meals := [heavy_meal 1, heavy_meal 2], meals_seq := 2\<rparr>)
   \<and> m_date (heavy_meal 1) = ''2024-01-01'' \<and> m_date (heavy_meal 2) = ''2024-01-01''
   \<and> m_calories (heavy_meal 1) = SInt 4611686018427387904
   \<and> m_calories (heavy_meal 2) = SInt 4611686018427387904"
  by (simp add: get_daily_meals_def Let_def sql_sum_def heavy_meal_def empty_db_def int64_def)

subsection \<open>Deleting by id\<close>

lemma int64_nat: "int64 (int i) \<longleftrightarrow> i < 2 ^ 63"
  by (auto simp: int64_def)

text \<open>
  C3, as the code has it. For every id below 2^63 (one that fits SQLite's 64-bit integer),
  existing or not, and every database, \<open>delete_workout\<close>, \<open>delete_meal\<close> and
  \<open>delete_goal\<close> answer 200 and remove exactly the rows with that id; deleting the same id
  again answers 200 and changes nothing, and deleting an id no row has answers 200 and
  leaves the database as it was.
\<close>

theorem delete_idempotent:
  assumes "i < 2 ^ 63"
  shows "delete_workout d i = (Ok200 (), d\<lparr>workouts := filter (\<lambda>w. w_id w \<noteq> i) (workouts d)\<rparr>)
       \<and> delete_meal d i = (Ok200 (), d\<lparr>meals := filter (\<lambda>m. m_id m \<noteq> i) (meals d)\<rparr>)
       \<and> delete_goal d i = (Ok200 (), d\<lparr>goals := filter (\<lambda>g. g_id g \<noteq> i) (goals d)\<rparr>)
       \<and> delete_workout (snd (delete_workout d i)) i = (Ok200 (), snd (delete_workout d i))
       \<and> delete_meal (snd (delete_meal d i)) i = (Ok200 (), snd (delete_meal d i))
       \<and> delete_goal (snd (delete_goal d i)) i = (Ok200 (), snd (delete_goal d i))
       \<and> (i \<notin> w_id ` set (workouts d) \<longrightarrow> delete_workout d i = (Ok200 (), d))
       \<and> (i \<notin> m_id ` set (meals d) \<longrightarrow> delete_meal d i = (Ok200 (), d))
       \<and> (i \<notin> g_id ` set (goals d) \<longrightarrow> delete_goal d i = (Ok200 (), d))"
proof -
  have fits: "int64 (int i)" using assms by (simp add: int64_nat)
  have w: "i \<notin> w_id ` set (workouts d) \<Longrightarrow> filter (\<lambda>w. w_id w \<noteq> i) (workouts d) = workouts d"
    and m: "i \<notin> m_id ` set (meals d) \<Longrightarrow> filter (\<lambda>m. m_id m \<noteq> i) (meals d) = meals d"
    and g: "i \<notin> g_id ` set (goals d) \<Longrightarrow> filter (\<lambda>g. g_id g \<noteq> i) (goals d) = goals d"
    by (auto simp: filter_id_conv)
  show ?thesis
    using fits w m g by (simp add: delete_workout_def delete_meal_def delete_goal_def)
qed

theorem delete_idempotent_witness:
  "(1::nat) < 2 ^ 63
   \<and> delete_workout active_day_db 1 = (Ok200 (), active_day_db\<lparr>workouts := []\<rparr>)
   \<and> delete_workout (snd (delete_workout active_day_db 1)) 1
       = (Ok200 (), active_day_db\<lparr>workouts := []\<rparr>)
   \<and> delete_goal active_day_db 1 = (Ok200 (), active_day_db)"
proof -
  have small: "(1::nat) < 2 ^ 63" by simp
  note facts = delete_idempotent [OF small, of active_day_db]
  have first: "delete_workout active_day_db 1 =
      (Ok200 (), active_day_db\<lparr>workouts := filter (\<lambda>w. w_id w \<noteq> 1) (workouts active_day_db)\<rparr>)"
    using facts by blast
  have rows: "filter (\<lambda>w. w_id w \<noteq> 1) (workouts active_day_db) = []"
    by (simp add: active_day_db_def empty_db_def morning_run_def)
  have again: "delete_workout (snd (delete_workout active_day_db 1)) 1
      = (Ok200 (), snd (delete_workout active_day_db 1))"
    using facts by blast
  have "1 \<notin> g_id ` set (goals active_day_db)"
    by (simp add: active_day_db_def empty_db_def)
  with facts have goal: "delete_goal active_day_db 1 = (Ok200 (), active_day_db)"
    by blast
  from first rows again goal small show ?thesis by simp
qed

text \<open>
  C3 as stated fails: the route accepts the id 2^63 = 9223372036854775808, binding it
  raises OverflowError, and the handlers have no \<^verbatim>\<open>except\<close>: no success is reported.
\<close>

theorem delete_huge_id_counterexample:
  "delete_workout active_day_db (2 ^ 63) = (Unhandled OverflowError, active_day_db)
   \<and> delete_meal active_day_db (2 ^ 63) = (Unhandled OverflowError, active_day_db)
   \<and> delete_goal active_day_db (2 ^ 63) = (Unhandled OverflowError, active_day_db)"
  by (simp add: delete_workout_def delete_meal_def delete_goal_def int64_def)

subsection \<open>Reads\<close>

text \<open>
  C10. Every read handler, \<open>get_workouts\<close>, \<open>get_meals\<close> with or without a date,
  \<open>get_daily_meals\<close>, \<open>get_calorie_goal\<close>, \<open>get_goals\<close> and \<open>get_stats\<close>, returns
  the database it was given, all four tables and their id sequences unchanged, whatever it
  answers.
\<close>

theorem reads_leave_database_unchanged:
  "snd (get_workouts d) = d
   \<and> snd (get_meals d date_arg) = d
   \<and> snd (get_daily_meals d date) = d
   \<and> snd (get_calorie_goal d date) = d
   \<and> snd (get_goals d) = d
   \<and> snd (get_stats d) = d"
  by (simp add: get_workouts_def get_meals_def get_daily_meals_def get_calorie_goal_def
      get_goals_def get_stats_def Let_def split: option.split)

subsection \<open>Creating rows\<close>

lemma handle_create_Created:
  "handle_create d r = (Created201 v, d') \<longleftrightarrow> r = Inr (v, d')"
  by (auto simp: handle_create_def split: sum.splits exn.splits)

lemma handle_create_failed:
  "(\<forall>v. fst (handle_create d r) \<noteq> Created201 v) \<Longrightarrow> snd (handle_create d r) = d"
  by (auto simp: handle_create_def split: sum.splits exn.splits)

lemma bind_exn_Inr:
  "bind_exn r f = Inr y \<longleftrightarrow> (\<exists>v. r = Inr v \<and> f v = Inr y)"
  by (cases r) (auto simp: bind_exn_def)

lemma get_default_lacks: "lacks data k \<Longrightarrow> get_default data k dflt = dflt"
  by (cases data) auto

text \<open>
  C2, as the code has it. A create call whose payload lacks a required field (the key is
  missing, or the payload is no JSON object) is answered 400 by \<open>add_workout\<close>, \<open>add_meal\<close>
  and \<open>add_goal\<close>, and the database is unchanged. Every create call that is not
  answered 201, whatever made it fail, leaves the database unchanged: no insert is partial.
  The shape of a field that is present is not checked.
\<close>

theorem create_rejects_missing_fields:
  "(k \<in> set [''date'', ''type'', ''duration'', ''calories''] \<and> lacks data k
      \<longrightarrow> add_workout d now data = (BadRequest400, d))
   \<and> (k \<in> set [''date'', ''meal_type'', ''food_name'', ''calories''] \<and> lacks data k
      \<longrightarrow> add_meal d now data = (BadRequest400, d))
   \<and> (k \<in> set [''goal_type'', ''target_value''] \<and> lacks data k
      \<longrightarrow> add_goal d now data = (BadRequest400, d))
   \<and> ((\<forall>i. fst (add_workout d now data) \<noteq> Created201 i) \<longrightarrow> snd (add_workout d now data) = d)
   \<and> ((\<forall>i. fst (add_meal d now data) \<noteq> Created201 i) \<longrightarrow> snd (add_meal d now data) = d)
   \<and> ((\<forall>i. fst (add_goal d now data) \<noteq> Created201 i) \<longrightarrow> snd (add_goal d now data) = d)"
proof -
  have w: "k \<in> set [''date'', ''type'', ''duration'', ''calories''] \<and> lacks data k
      \<longrightarrow> add_workout d now data = (BadRequest400, d)"
    by (cases data)
       (auto simp: add_workout_def bind_exn_def handle_create_def split: option.splits)
  have m: "k \<in> set [''date'', ''meal_type'', ''food_name'', ''calories''] \<and> lacks data k
      \<longrightarrow> add_meal d now data = (BadRequest400, d)"
    by (cases data)
       (auto simp: add_meal_def bind_exn_def handle_create_def split: option.splits)
  have g: "k \<in> set [''goal_type'', ''target_value''] \<and> lacks data k
      \<longrightarrow> add_goal d now data = (BadRequest400, d)"
    by (cases data)
       (auto simp: add_goal_def bind_exn_def handle_create_def split: option.splits)
  have w': "(\<forall>i. fst (add_workout d now data) \<noteq> Created201 i) \<longrightarrow> snd (add_workout d now data) = d"
    unfolding add_workout_def by (blast intro: handle_create_failed)
  have m': "(\<forall>i. fst (add_meal d now data) \<noteq> Created201 i) \<longrightarrow> snd (add_meal d now data) = d"
    unfolding add_meal_def by (blast intro: handle_create_failed)
  have g': "(\<forall>i. fst (add_goal d now data) \<noteq> Created201 i) \<longrightarrow> snd (add_goal d now data) = d"
    unfolding add_goal_def by (blast intro: handle_create_failed)
  from w m g w' m' g' show ?thesis by blast
qed

theorem create_rejects_missing_fields_witness:
  "add_workout empty_db ''2024-01-01 10:00:00''
      (JDict [(''date'', JStr ''2024-01-01''), (''type'', JStr ''run''), (''calories'', JInt 300)])
     = (BadRequest400, empty_db)
   \<and> add_meal empty_db ''2024-01-01 10:00:00'' JNull = (BadRequest400, empty_db)
   \<and> add_goal empty_db ''2024-01-01 10:00:00'' (JDict [(''goal_type'', JStr ''weight'')])
     = (BadRequest400, empty_db)
   \<and> fst (add_workout empty_db ''2024-01-01 10:00:00''
      (JDict [(''date'', JStr ''2024-01-01''), (''type'', JStr ''run''), (''duration'', JNull),
              (''calories'', JInt 300)])) = Unhandled IntegrityError
   \<and> snd (add_workout empty_db ''2024-01-01 10:00:00''
      (JDict [(''date'', JStr ''2024-01-01''), (''type'', JStr ''run''), (''duration'', JNull),
              (''calories'', JInt 300)])) = empty_db"
proof -
  let ?now = "''2024-01-01 10:00:00''"
  let ?no_duration =
    "JDict [(''date'', JStr ''2024-01-01''), (''type'', JStr ''run''), (''calories'', JInt 300)]"
  let ?null_duration =
    "JDict [(''date'', JStr ''2024-01-01''), (''type'', JStr ''run''), (''duration'', JNull),
            (''calories'', JInt 300)]"
  have w: "add_workout empty_db ?now ?no_duration = (BadRequest400, empty_db)"
    using create_rejects_missing_fields [of "''duration''" ?no_duration empty_db ?now]
    by simp
  have m: "add_meal empty_db ?now JNull = (BadRequest400, empty_db)"
    using create_rejects_missing_fields [of "''date''" JNull empty_db ?now]
    by simp
  have g: "add_goal empty_db ?now (JDict [(''goal_type'', JStr ''weight'')])
      = (BadRequest400, empty_db)"
    using create_rejects_missing_fields
      [of "''target_value''" "JDict [(''goal_type'', JStr ''weight'')]" empty_db ?now]
    by simp
  have r: "fst (add_workout empty_db ?now ?null_duration) = Unhandled IntegrityError"
    by (simp add: add_workout_def bind_exn_def handle_create_def insert_workout_def
        not_null_def not_null_text_def int64_def)
  then have "snd (add_workout empty_db ?now ?null_duration) = empty_db"
    using create_rejects_missing_fields [of "''date''" ?null_duration empty_db ?now]
    by simp
  with w m g r show ?thesis by simp
qed

text \<open>
  C2 as stated fails: a workout whose duration is the string "abc" is not rejected. The
  call is answered 201 and the row is stored with that text in the duration column.
\<close>

theorem create_stores_wrong_shape_counterexample:
  "add_workout empty_db ''2024-01-01 10:00:00''
      (JDict [(''date'', JStr ''2024-01-01''), (''type'', JStr ''run''),
              (''duration'', JStr ''abc''), (''calories'', JInt 300)])
     = (Created201 1,
        empty_db\<lparr>workouts :=
            [\<lparr>w_id = 1, w_date = ''2024-01-01'', w_type = ''run'', w_duration = SText ''abc'',
              w_calories = SInt 300, w_notes = Some '''',
              w_created_at = ''2024-01-01 10:00:00''\<rparr>],
          workouts_seq := 1\<rparr>)"
  by (simp add: add_workout_def bind_exn_def handle_create_def insert_workout_def
      not_null_def not_null_text_def int64_def int_literal_def strip_sign_def is_space_def
      is_digit_def next_rowid_def empty_db_def)

lemma add_workout_default:
  assumes "add_workout d now data = (Created201 i, d')" and "lacks data ''notes''"
  shows "\<exists>row. workouts d' = workouts d @ [row] \<and> w_id row = i \<and> w_notes row = Some ''''"
  using assms
  by (auto simp: add_workout_def handle_create_Created bind_exn_Inr insert_workout_def
      get_default_lacks Let_def)

lemma add_meal_default:
  assumes "add_meal d now data = (Created201 i, d')"
  shows "\<exists>row. meals d' = meals d @ [row] \<and> m_id row = i
            \<and> (lacks data ''protein'' \<longrightarrow> m_protein row = SInt 0)
            \<and> (lacks data ''carbs'' \<longrightarrow> m_carbs row = SInt 0)
            \<and> (lacks data ''fats'' \<longrightarrow> m_fats row = SInt 0)
            \<and> (lacks data ''notes'' \<longrightarrow> m_notes row = Some '''')"
  using assms
  by (auto simp: add_meal_def handle_create_Created bind_exn_Inr insert_meal_def
      get_default_lacks Let_def int64_def)

lemma add_goal_default:
  assumes "add_goal d now data = (Created201 i, d')" and "lacks data ''deadline''"
  shows "\<exists>row. goals d' = goals d @ [row] \<and> g_id row = i \<and> g_deadline row = None"
  using assms
  by (auto simp: add_goal_def handle_create_Created bind_exn_Inr insert_goal_def
      get_default_lacks Let_def)

text \<open>
  C9. For every create call that is answered 201, the stored row is the one row appended
  to the table, it carries the id of the answer, and each optional field the payload lacks
  has its default: \<^verbatim>\<open>notes\<close> the empty string for a workout and a meal,
  \<^verbatim>\<open>protein\<close>, \<^verbatim>\<open>carbs\<close> and \<^verbatim>\<open>fats\<close> the integer 0 for a meal, each on its own,
  and \<^verbatim>\<open>deadline\<close> NULL for a goal.
\<close>

theorem create_defaults:
  "(add_workout d now data = (Created201 i, d') \<and> lacks data ''notes''
      \<longrightarrow> (\<exists>row. workouts d' = workouts d @ [row] \<and> w_id row = i \<and> w_notes row = Some ''''))
   \<and> (add_meal d now data = (Created201 i, d')
      \<longrightarrow> (\<exists>row. meals d' = meals d @ [row] \<and> m_id row = i
            \<and> (lacks data ''protein'' \<longrightarrow> m_protein row = SInt 0)
            \<and> (lacks data ''carbs'' \<longrightarrow> m_carbs row = SInt 0)
            \<and> (lacks data ''fats'' \<longrightarrow> m_fats row = SInt 0)
            \<and> (lacks data ''notes'' \<longrightarrow> m_notes row = Some '''')))
   \<and> (add_goal d now data = (Created201 i, d') \<and> lacks data ''deadline''
      \<longrightarrow> (\<exists>row. goals d' = goals d @ [row] \<and> g_id row = i \<and> g_deadline row = None))"
  using add_workout_default [of d now data i d'] add_meal_default [of d now data i d']
    add_goal_default [of d now data i d']
  by blast

theorem create_defaults_witness:
  "add_workout empty_db ''2024-01-01 10:00:00''
      (JDict [(''date'', JStr ''2024-01-01''), (''type'', JStr ''run''),
              (''duration'', JInt 30), (''calories'', JInt 300)])
     = (Created201 1,
        empty_db\<lparr>workouts :=
            [\<lparr>w_id = 1, w_date = ''2024-01-01'', w_type = ''run'', w_duration = SInt 30,
              w_calories = SInt 300, w_notes = Some '''',
              w_created_at = ''2024-01-01 10:00:00''\<rparr>],
          workouts_seq := 1\<rparr>)
   \<and> add_meal empty_db ''2024-01-01 10:00:00''
      (JDict [(''date'', JStr ''2024-01-01''), (''meal_type'', JStr ''lunch''),
              (''food_name'', JStr ''rice''), (''calories'', JInt 600)])
     = (Created201 1,
        empty_db\<lparr>meals :=
            [\<lparr>m_id = 1, m_date = ''2024-01-01'', m_meal_type = ''lunch'', m_food_name = ''rice'',
              m_calories = SInt 600, m_protein = SInt 0, m_carbs = SInt 0, m_fats = SInt 0,
              m_notes = Some '''', m_created_at = ''2024-01-01 10:00:00''\<rparr>],
          meals_seq := 1\<rparr>)
   \<and> add_goal empty_db ''2024-01-01 10:00:00''
      (JDict [(''goal_type'', JStr ''weight''), (''target_value'', JInt 70)])
     = (Created201 1,
        empty_db\<lparr>goals :=
            [\<lparr>g_id = 1, g_goal_type = ''weight'', g_target_value = SInt 70, g_deadline = None,
              g_created_at = ''2024-01-01 10:00:00''\<rparr>],
          goals_seq := 1\<rparr>)
   \<and> (\<exists>row. workouts (snd (add_workout empty_db ''2024-01-01 10:00:00''
      (JDict [(''date'', JStr ''2024-01-01''), (''type'', JStr ''run''),
              (''duration'', JInt 30), (''calories'', JInt 300)])))
          = workouts empty_db @ [row] \<and> w_id row = 1 \<and> w_notes row = Some '''')"
proof -
  let ?now = "''2024-01-01 10:00:00''"
  let ?w = "JDict [(''date'', JStr ''2024-01-01''), (''type'', JStr ''run''),
              (''duration'', JInt 30), (''calories'', JInt 300)]"
  let ?w' = "empty_db\<lparr>workouts :=
            [\<lparr>w_id = 1, w_date = ''2024-01-01'', w_type = ''run'', w_duration = SInt 30,
              w_calories = SInt 300, w_notes = Some '''',
              w_created_at = ''2024-01-01 10:00:00''\<rparr>],
          workouts_seq := 1\<rparr>"
  have w: "add_workout empty_db ?now ?w = (Created201 1, ?w')"
    by (simp add: add_workout_def bind_exn_def handle_create_def insert_workout_def
        not_null_def not_null_text_def int64_def next_rowid_def empty_db_def)
  have m: "add_meal empty_db ?now
      (JDict [(''date'', JStr ''2024-01-01''), (''meal_type'', JStr ''lunch''),
              (''food_name'', JStr ''rice''), (''calories'', JInt 600)])
     = (Created201 1,
        empty_db\<lparr>meals :=
            [\<lparr>m_id = 1, m_date = ''2024-01-01'', m_meal_type = ''lunch'', m_food_name = ''rice'',
              m_calories = SInt 600, m_protein = SInt 0, m_carbs = SInt 0, m_fats = SInt 0,
              m_notes = Some '''', m_created_at = ''2024-01-01 10:00:00''\<rparr>],
          meals_seq := 1\<rparr>)"
    by (simp add: add_meal_def bind_exn_def handle_create_def insert_meal_def
        not_null_def not_null_text_def int64_def next_rowid_def empty_db_def)
  have g: "add_goal empty_db ?now
      (JDict [(''goal_type'', JStr ''weight''), (''target_value'', JInt 70)])
     = (Created201 1,
        empty_db\<lparr>goals :=
            [\<lparr>g_id = 1, g_goal_type = ''weight'', g_target_value = SInt 70, g_deadline = None,
              g_created_at = ''2024-01-01 10:00:00''\<rparr>],
          goals_seq := 1\<rparr>)"
    by (simp add: add_goal_def bind_exn_def handle_create_def insert_goal_def
        not_null_def not_null_text_def int64_def next_rowid_def empty_db_def)
  have absent: "lacks ?w ''notes''" by simp
  from create_defaults [of empty_db ?now ?w 1 ?w'] w absent
  have "\<exists>row. workouts ?w' = workouts empty_db @ [row] \<and> w_id row = 1 \<and> w_notes row = Some ''''"
    by blast
  then have "\<exists>row. workouts (snd (add_workout empty_db ?now ?w))
          = workouts empty_db @ [row] \<and> w_id row = 1 \<and> w_notes row = Some ''''"
    by (simp only: w snd_conv)
  with w m g show ?thesis by (intro conjI)
qed

subsection \<open>Setting the calorie goal of a date\<close>

lemma fold_max_ge: "a \<le> fold max ids (a::nat)"
  by (induction ids arbitrary: a) (auto intro: order_trans [OF max.cobounded2])

lemma fold_max_mem: "x \<in> set ids \<Longrightarrow> x \<le> fold max ids (a::nat)"
proof (induction ids arbitrary: a)
  case Nil
  then show ?case by simp
next
  case (Cons y ys)
  show ?case
  proof (cases "x = y")
    case True
    have "y \<le> max y a" by simp
    also have "\<dots> \<le> fold max ys (max y a)" by (rule fold_max_ge)
    finally show ?thesis using True by simp
  next
    case False
    with Cons.prems have "x \<in> set ys" by simp
    then show ?thesis using Cons.IH by simp
  qed
qed

lemma next_rowid_fresh:
  "seq < next_rowid seq ids" "x \<in> set ids \<Longrightarrow> x < next_rowid seq ids"
  using fold_max_mem [of x ids 0] by (auto simp: next_rowid_def)

lemma set_calorie_goal_step:
  assumes "map_of kvs ''date'' = Some (JStr date)"
    and "map_of kvs ''daily_goal'' = Some (JInt g)" and "int64 g"
  shows "set_calorie_goal d t (JDict kvs) =
     (Created201 (),
      d\<lparr>calorie_goals :=
           filter (\<lambda>r. cg_date r \<noteq> date) (calorie_goals d) @
           [\<lparr>cg_id = next_rowid (calorie_goals_seq d) (map cg_id (calorie_goals d)),
             cg_date = date, cg_daily_goal = SInt g, cg_created_at = t\<rparr>],
         calorie_goals_seq := next_rowid (calorie_goals_seq d) (map cg_id (calorie_goals d))\<rparr>)"
  using assms
  by (simp add: set_calorie_goal_def bind_exn_def handle_create_def replace_calorie_goal_def
      not_null_def not_null_text_def Let_def)

lemma next_rowid_above: "r \<in> set rows \<Longrightarrow> f r < next_rowid seq (map f rows)"
  by (simp add: next_rowid_fresh(2))

text \<open>
  C1, as the code has it. For every database and every date, two calls of
  \<open>set_calorie_goal\<close> for that date with integer goals \<open>g1\<close> and then \<open>g2\<close>, each within
  the signed 64-bit range, are both answered 201. After the first, one row holds the date;
  after the second, again exactly one row holds the date, its daily goal is \<open>g2\<close>, its
  creation time is that of the second call, and its id is larger than the id of the row it
  replaced and than every id the table held before: the row is replaced whole. The rows of
  other dates are the ones of the starting database.
\<close>

theorem set_calorie_goal_replaces:
  assumes "map_of kvs1 ''date'' = Some (JStr date)"
    and "map_of kvs1 ''daily_goal'' = Some (JInt g1)" and "int64 g1"
    and "map_of kvs2 ''date'' = Some (JStr date)"
    and "map_of kvs2 ''daily_goal'' = Some (JInt g2)" and "int64 g2"
  shows "\<exists>d1 d2 old new.
      set_calorie_goal d t1 (JDict kvs1) = (Created201 (), d1)
    \<and> set_calorie_goal d1 t2 (JDict kvs2) = (Created201 (), d2)
    \<and> filter (\<lambda>r. cg_date r = date) (calorie_goals d1) = [old]
    \<and> filter (\<lambda>r. cg_date r = date) (calorie_goals d2) = [new]
    \<and> cg_daily_goal new = SInt g2
    \<and> cg_created_at new = t2
    \<and> cg_id old < cg_id new
    \<and> (\<forall>r \<in> set (calorie_goals d) \<union> set (calorie_goals d1). cg_id r < cg_id new)
    \<and> filter (\<lambda>r. cg_date r \<noteq> date) (calorie_goals d2)
        = filter (\<lambda>r. cg_date r \<noteq> date) (calorie_goals d)"
proof -
  define i1 where "i1 = next_rowid (calorie_goals_seq d) (map cg_id (calorie_goals d))"
  define old where
    "old = \<lparr>cg_id = i1, cg_date = date, cg_daily_goal = SInt g1, cg_created_at = t1\<rparr>"
  define d1 where
    "d1 = d\<lparr>calorie_goals := filter (\<lambda>r. cg_date r \<noteq> date) (calorie_goals d) @ [old],
            calorie_goals_seq := i1\<rparr>"
  define i2 where "i2 = next_rowid (calorie_goals_seq d1) (map cg_id (calorie_goals d1))"
  define new where
    "new = \<lparr>cg_id = i2, cg_date = date, cg_daily_goal = SInt g2, cg_created_at = t2\<rparr>"
  define d2 where
    "d2 = d1\<lparr>calorie_goals := filter (\<lambda>r. cg_date r \<noteq> date) (calorie_goals d1) @ [new],
             calorie_goals_seq := i2\<rparr>"
  have first: "set_calorie_goal d t1 (JDict kvs1) = (Created201 (), d1)"
    unfolding d1_def old_def i1_def by (rule set_calorie_goal_step [OF assms(1-3)])
  have second: "set_calorie_goal d1 t2 (JDict kvs2) = (Created201 (), d2)"
    unfolding d2_def new_def i2_def by (rule set_calorie_goal_step [OF assms(4-6)])
  have rows1: "calorie_goals d1 = filter (\<lambda>r. cg_date r \<noteq> date) (calorie_goals d) @ [old]"
    and seq1: "calorie_goals_seq d1 = i1"
    by (simp_all add: d1_def)
  have rows2: "calorie_goals d2 = filter (\<lambda>r. cg_date r \<noteq> date) (calorie_goals d1) @ [new]"
    by (simp add: d2_def)
  have fields: "cg_date old = date" "cg_date new = date" "cg_id old = i1" "cg_id new = i2"
    "cg_daily_goal new = SInt g2" "cg_created_at new = t2"
    by (simp_all add: old_def new_def)
  have one_old: "filter (\<lambda>r. cg_date r = date) (calorie_goals d1) = [old]"
    by (simp add: rows1 fields filter_empty_conv)
  have one_new: "filter (\<lambda>r. cg_date r = date) (calorie_goals d2) = [new]"
    by (simp add: rows2 fields filter_empty_conv)
  have others: "filter (\<lambda>r. cg_date r \<noteq> date) (calorie_goals d2)
        = filter (\<lambda>r. cg_date r \<noteq> date) (calorie_goals d)"
    by (simp add: rows2 rows1 fields)
  have "i1 < i2"
    unfolding i2_def seq1 by (rule next_rowid_fresh(1))
  then have newer: "cg_id old < cg_id new"
    by (simp add: fields)
  have above1: "cg_id r < cg_id new" if "r \<in> set (calorie_goals d1)" for r
    using that unfolding fields i2_def by (rule next_rowid_above)
  have "cg_id r < i1" if "r \<in> set (calorie_goals d)" for r
    using that unfolding i1_def by (rule next_rowid_above)
  with \<open>i1 < i2\<close> have above: "cg_id r < cg_id new" if "r \<in> set (calorie_goals d)" for r
    using that by (auto simp: fields intro: less_trans)
  have all_above: "\<forall>r \<in> set (calorie_goals d) \<union> set (calorie_goals d1). cg_id r < cg_id new"
    using above above1 by blast
  have "set_calorie_goal d t1 (JDict kvs1) = (Created201 (), d1)
    \<and> set_calorie_goal d1 t2 (JDict kvs2) = (Created201 (), d2)
    \<and> filter (\<lambda>r. cg_date r = date) (calorie_goals d1) = [old]
    \<and> filter (\<lambda>r. cg_date r = date) (calorie_goals d2) = [new]
    \<and> cg_daily_goal new = SInt g2
    \<and> cg_created_at new = t2
    \<and> cg_id old < cg_id new
    \<and> (\<forall>r \<in> set (calorie_goals d) \<union> set (calorie_goals d1). cg_id r < cg_id new)
    \<and> filter (\<lambda>r. cg_date r \<noteq> date) (calorie_goals d2)
        = filter (\<lambda>r. cg_date r \<noteq> date) (calorie_goals d)"
    using first second one_old one_new fields(5,6) newer all_above others
    by (intro conjI)
  then show ?thesis
    by (intro exI)
qed

theorem set_calorie_goal_replaces_witness:
  "set_calorie_goal empty_db ''2024-01-01 09:00:00''
      (JDict [(''date'', JStr ''2024-01-01''), (''daily_goal'', JInt 2000)]) =
     (Created201 (),
      empty_db\<lparr>calorie_goals := [\<lparr>cg_id = 1, cg_date = ''2024-01-01'', cg_daily_goal = SInt 2000,
                                   cg_created_at = ''2024-01-01 09:00:00''\<rparr>],
               calorie_goals_seq := 1\<rparr>)
   \<and> set_calorie_goal
       (empty_db\<lparr>calorie_goals := [\<lparr>cg_id = 1, cg_date = ''2024-01-01'', cg_daily_goal = SInt 2000,
                                   cg_created_at = ''2024-01-01 09:00:00''\<rparr>],
               calorie_goals_seq := 1\<rparr>)
       ''2024-01-02 18:00:00''
       (JDict [(''date'', JStr ''2024-01-01''), (''daily_goal'', JInt 2200)]) =
     (Created201 (),
      empty_db\<lparr>calorie_goals := [\<lparr>cg_id = 2, cg_date = ''2024-01-01'', cg_daily_goal = SInt 2200,
                                   cg_created_at = ''2024-01-02 18:00:00''\<rparr>],
               calorie_goals_seq := 2\<rparr>)
   \<and> (\<exists>d1 d2 old new.
      set_calorie_goal empty_db ''2024-01-01 09:00:00''
        (JDict [(''date'', JStr ''2024-01-01''), (''daily_goal'', JInt 2000)]) = (Created201 (), d1)
    \<and> set_calorie_goal d1 ''2024-01-02 18:00:00''
        (JDict [(''date'', JStr ''2024-01-01''), (''daily_goal'', JInt 2200)]) = (Created201 (), d2)
    \<and> filter (\<lambda>r. cg_date r = ''2024-01-01'') (calorie_goals d1) = [old]
    \<and> filter (\<lambda>r. cg_date r = ''2024-01-01'') (calorie_goals d2) = [new]
    \<and> cg_daily_goal new = SInt 2200
    \<and> cg_created_at new = ''2024-01-02 18:00:00''
    \<and> cg_id old < cg_id new
    \<and> (\<forall>r \<in> set (calorie_goals empty_db) \<union> set (calorie_goals d1). cg_id r < cg_id new)
    \<and> filter (\<lambda>r. cg_date r \<noteq> ''2024-01-01'') (calorie_goals d2)
        = filter (\<lambda>r. cg_date r \<noteq> ''2024-01-01'') (calorie_goals empty_db))"
proof -
  have date: "map_of [(''date'', JStr ''2024-01-01''), (''daily_goal'', JInt 2000)] ''date''
      = Some (JStr ''2024-01-01'')"
    and goal: "map_of [(''date'', JStr ''2024-01-01''), (''daily_goal'', JInt 2000)] ''daily_goal''
      = Some (JInt 2000)"
    and date': "map_of [(''date'', JStr ''2024-01-01''), (''daily_goal'', JInt 2200)] ''date''
      = Some (JStr ''2024-01-01'')"
    and goal': "map_of [(''date'', JStr ''2024-01-01''), (''daily_goal'', JInt 2200)] ''daily_goal''
      = Some (JInt 2200)"
    and fits: "int64 2000" "int64 2200"
    by (simp_all add: int64_def)
  note general = set_calorie_goal_replaces [OF date goal fits(1) date' goal' fits(2),
      of empty_db "''2024-01-01 09:00:00''" "''2024-01-02 18:00:00''"]
  have first: "set_calorie_goal empty_db ''2024-01-01 09:00:00''
      (JDict [(''date'', JStr ''2024-01-01''), (''daily_goal'', JInt 2000)]) =
     (Created201 (),
      empty_db\<lparr>calorie_goals := [\<lparr>cg_id = 1, cg_date = ''2024-01-01'', cg_daily_goal = SInt 2000,
                                   cg_created_at = ''2024-01-01 09:00:00''\<rparr>],
               calorie_goals_seq := 1\<rparr>)"
    by (simp add: set_calorie_goal_def bind_exn_def handle_create_def replace_calorie_goal_def
      not_null_def not_null_text_def Let_def int64_def next_rowid_def empty_db_def)
  have second: "set_calorie_goal
       (empty_db\<lparr>calorie_goals := [\<lparr>cg_id = 1, cg_date = ''2024-01-01'', cg_daily_goal = SInt 2000,
                                   cg_created_at = ''2024-01-01 09:00:00''\<rparr>],
               calorie_goals_seq := 1\<rparr>)
       ''2024-01-02 18:00:00''
       (JDict [(''date'', JStr ''2024-01-01''), (''daily_goal'', JInt 2200)]) =
     (Created201 (),
      empty_db\<lparr>calorie_goals := [\<lparr>cg_id = 2, cg_date = ''2024-01-01'', cg_daily_goal = SInt 2200,
                                   cg_created_at = ''2024-01-02 18:00:00''\<rparr>],
               calorie_goals_seq := 2\<rparr>)"
    by (simp add: set_calorie_goal_def bind_exn_def handle_create_def replace_calorie_goal_def
      not_null_def not_null_text_def Let_def int64_def next_rowid_def empty_db_def)
  from first second general show ?thesis by (intro conjI)
qed

text \<open>
  C1 as stated fails: after a goal of 2000 is set for a date, setting the goal
  2^63 = 9223372036854775808 for the same date raises OverflowError when the value is
  bound. The handler catches only KeyError and TypeError, nothing is replaced, and the
  one row of that date still holds 2000.
\<close>

theorem set_calorie_goal_huge_goal_counterexample:
  "set_calorie_goal empty_db ''2024-01-01 09:00:00''
      (JDict [(''date'', JStr ''2024-01-01''), (''daily_goal'', JInt 2000)]) =
     (Created201 (),
      empty_db\<lparr>calorie_goals := [\<lparr>cg_id = 1, cg_date = ''2024-01-01'', cg_daily_goal = SInt 2000,
                                   cg_created_at = ''2024-01-01 09:00:00''\<rparr>],
               calorie_goals_seq := 1\<rparr>)
   \<and> set_calorie_goal
       (empty_db\<lparr>calorie_goals := [\<lparr>cg_id = 1, cg_date = ''2024-01-01'', cg_daily_goal = SInt 2000,
                                   cg_created_at = ''2024-01-01 09:00:00''\<rparr>],
               calorie_goals_seq := 1\<rparr>)
       ''2024-01-02 18:00:00''
       (JDict [(''date'', JStr ''2024-01-01''), (''daily_goal'', JInt 9223372036854775808)]) =
     (Unhandled OverflowError,
      empty_db\<lparr>calorie_goals := [\<lparr>cg_id = 1, cg_date = ''2024-01-01'', cg_daily_goal = SInt 2000,
                                   cg_created_at = ''2024-01-01 09:00:00''\<rparr>],
               calorie_goals_seq := 1\<rparr>)"
  by (simp add: set_calorie_goal_def bind_exn_def handle_create_def replace_calorie_goal_def
      not_null_def not_null_text_def Let_def int64_def next_rowid_def empty_db_def)

end
